theory Spec2Isabelle
  imports Main
begin

section \<open>Python values and exceptions\<close>

text \<open>
  The facade receives \<open>inputs: dict\<close>. The dashboard builds it with the keys
  \<open>topic\<close> (text), \<open>max_leads\<close> (an integer) and \<open>additional_info\<close> (text), so
  a value is a text or an integer, and the dict is a partial map from keys to values.
\<close>

datatype pyval = PyStr string | PyInt int

type_synonym inputs = "string \<rightharpoonup> pyval"

text \<open>\<open>d.get(key, default)\<close>: the stored value, or the default when the key is absent.\<close>

definition dict_get :: "inputs \<Rightarrow> string \<Rightarrow> pyval \<Rightarrow> pyval" where
  "dict_get d k dflt = (case d k of None \<Rightarrow> dflt | Some v \<Rightarrow> v)"

text \<open>
  An f-string field \<open>{v}\<close> renders a text as itself and an integer in decimal.
  The digits are produced from the least significant one; the first argument of
  \<open>digits_upto\<close> bounds the number of digits and \<open>Suc n\<close> is always enough for \<open>n\<close>.
\<close>

primrec digits_upto :: "nat \<Rightarrow> nat \<Rightarrow> string" where
  "digits_upto 0 n = []"
| "digits_upto (Suc k) n =
     (if n < 10 then [''0123456789'' ! n]
      else digits_upto k (n div 10) @ [''0123456789'' ! (n mod 10)])"

definition py_format :: "pyval \<Rightarrow> string" where
  "py_format v =
     (case v of
        PyStr s \<Rightarrow> s
      | PyInt i \<Rightarrow>
          (if i < 0 then CHR ''-'' # digits_upto (Suc (nat (- i))) (nat (- i))
           else digits_upto (Suc (nat i)) (nat i)))"

text \<open>
  Errors are values. \<open>Exception msg\<close> stands for any instance of Python's
  \<open>Exception\<close> raised by the orchestration engine, with \<open>msg\<close> its \<open>str(e)\<close>.
  \<open>ValidationError fields\<close> is what pydantic raises when a model is constructed
  without the listed required fields. Both are instances of \<open>Exception\<close>, which is
  what the \<open>except Exception\<close> clause of \<open>run\<close> catches; signals that are
  not (\<open>KeyboardInterrupt\<close>, \<open>SystemExit\<close>) are not modelled there.
\<close>

datatype exn = Exception string | ValidationError "string list"

section \<open>The result schema \<open>LeadOutput\<close>\<close>

text \<open>
  \<open>class LeadOutput(BaseModel)\<close> declares eight fields, each annotated \<open>Optional[...]\<close>,
  so each holds a value or \<open>None\<close>. \<open>Dict[str, str]\<close> is a partial map.
\<close>

record LeadOutput =
  company_name :: "string option"
  annual_revenue :: "string option"
  location :: "(string \<rightharpoonup> string) option"
  website_url :: "string option"
  review :: "string option"
  num_employees :: "int option"
  key_decision_makers :: "(string \<rightharpoonup> string) list option"
  score :: "int option"

text \<open>
  A constructor call passes some fields as keyword arguments and omits the others;
  an argument that is passed may itself be \<open>None\<close>.
\<close>

datatype 'a kwarg = Omitted | Passed 'a

record LeadOutput_kwargs =
  kw_company_name :: "string option kwarg"
  kw_annual_revenue :: "string option kwarg"
  kw_location :: "(string \<rightharpoonup> string) option kwarg"
  kw_website_url :: "string option kwarg"
  kw_review :: "string option kwarg"
  kw_num_employees :: "int option kwarg"
  kw_key_decision_makers :: "(string \<rightharpoonup> string) list option kwarg"
  kw_score :: "int option kwarg"

definition no_kwargs :: LeadOutput_kwargs where
  "no_kwargs =
     \<lparr>kw_company_name = Omitted, kw_annual_revenue = Omitted, kw_location = Omitted,
      kw_website_url = Omitted, kw_review = Omitted, kw_num_employees = Omitted,
      kw_key_decision_makers = Omitted, kw_score = Omitted\<rparr>"

primrec field_value :: "'a option kwarg \<Rightarrow> 'a option" where
  "field_value Omitted = None"
| "field_value (Passed v) = v"

primrec absent :: "string \<Rightarrow> 'a kwarg \<Rightarrow> string list" where
  "absent name Omitted = [name]"
| "absent name (Passed v) = []"

text \<open>The omitted fields, in the order the class declares them.\<close>

definition missing_fields :: "LeadOutput_kwargs \<Rightarrow> string list" where
  "missing_fields kw =
     absent ''company_name'' (kw_company_name kw) @
     absent ''annual_revenue'' (kw_annual_revenue kw) @
     absent ''location'' (kw_location kw) @
     absent ''website_url'' (kw_website_url kw) @
     absent ''review'' (kw_review kw) @
     absent ''num_employees'' (kw_num_employees kw) @
     absent ''key_decision_makers'' (kw_key_decision_makers kw) @
     absent ''score'' (kw_score kw)"

definition filled :: "LeadOutput_kwargs \<Rightarrow> LeadOutput" where
  "filled kw =
     \<lparr>company_name = field_value (kw_company_name kw),
      annual_revenue = field_value (kw_annual_revenue kw),
      location = field_value (kw_location kw),
      website_url = field_value (kw_website_url kw),
      review = field_value (kw_review kw),
      num_employees = field_value (kw_num_employees kw),
      key_decision_makers = field_value (kw_key_decision_makers kw),
      score = field_value (kw_score kw)\<rparr>"

text \<open>
  Every field is declared as \<open>Optional[T] = Field(description=...)\<close>: nullable, and
  with no default value. What the constructor does with an omitted field of that
  shape is decided by the installed pydantic, which is not part of the repository:
  pydantic 1 fills in \<open>None\<close>; pydantic 2 treats the field as required and raises
  \<open>ValidationError\<close> naming every omitted field. The library's rule is therefore a
  parameter of the model. The orchestration engine itself depends on pydantic 2.
\<close>

datatype pydantic = Pydantic1 | Pydantic2

definition LeadOutput_init :: "pydantic \<Rightarrow> LeadOutput_kwargs \<Rightarrow> exn + LeadOutput" where
  "LeadOutput_init lib kw =
     (case lib of
        Pydantic1 \<Rightarrow> Inr (filled kw)
      | Pydantic2 \<Rightarrow>
          (if missing_fields kw = [] then Inr (filled kw)
           else Inl (ValidationError (missing_fields kw))))"

section \<open>The crew: agents, tasks and their wiring\<close>

datatype Tool = SerperDevTool | ScrapeWebsiteTool

definition search_tool :: Tool where
  "search_tool = SerperDevTool"

definition scrape_tool :: Tool where
  "scrape_tool = ScrapeWebsiteTool"

text \<open>
  An agent or a task is built from an entry of the YAML configuration, looked up by a
  fixed key; the entry is opaque here and is represented by its key. A keyword
  argument that the source does not pass (\<open>tools\<close>, \<open>context\<close>, \<open>output_pydantic\<close>)
  is \<open>None\<close>.
\<close>

datatype Agent =
  Agent (agent_config: string) (agent_tools: "Tool list option") (agent_verbose: bool)

datatype Task =
  Task (task_config: string) (task_context: "Task list option")
    (task_output_pydantic: "string option")

datatype Process = sequential | hierarchical

record Crew =
  crew_agents :: "Agent list"
  crew_tasks :: "Task list"
  crew_process :: Process
  crew_verbose :: bool
  crew_usage_metrics :: "(string \<times> nat) list"

definition lead_generator :: Agent where
  "lead_generator = Agent ''lead_generator'' (Some [search_tool, scrape_tool]) True"

definition contact_agent :: Agent where
  "contact_agent = Agent ''contact_agent'' (Some [search_tool, scrape_tool]) True"

definition lead_qualifier :: Agent where
  "lead_qualifier = Agent ''lead_qualifier'' None True"

definition sales_manager :: Agent where
  "sales_manager = Agent ''sales_manager'' (Some []) True"

definition lead_generation_task :: Task where
  "lead_generation_task = Task ''lead_generation_task'' None (Some ''LeadOutput'')"

definition contact_research_task :: Task where
  "contact_research_task =
     Task ''contact_research_task'' (Some [lead_generation_task]) None"

definition lead_qualification_task :: Task where
  "lead_qualification_task =
     Task ''lead_qualification_task''
       (Some [lead_generation_task, contact_research_task]) (Some ''LeadOutput'')"

definition sales_management_task :: Task where
  "sales_management_task =
     Task ''sales_management_task''
       (Some [lead_generation_task, lead_qualification_task, contact_research_task])
       (Some ''LeadOutput'')"

text \<open>
  \<open>self.agents\<close> and \<open>self.tasks\<close> are filled by the \<open>CrewBase\<close> decorator with the
  results of the \<open>@agent\<close> and \<open>@task\<close> methods, in the order the class body
  defines them.
\<close>

definition agents :: "Agent list" where
  "agents = [lead_generator, contact_agent, lead_qualifier, sales_manager]"

definition tasks :: "Task list" where
  "tasks =
     [lead_generation_task, contact_research_task, lead_qualification_task,
      sales_management_task]"

definition crew :: Crew where
  "crew =
     \<lparr>crew_agents = agents, crew_tasks = tasks, crew_process = sequential,
      crew_verbose = True, crew_usage_metrics = []\<rparr>"

text \<open>
  A task list is wired forwards when the context of each task names only tasks
  that stand before it in the list.
\<close>

definition context_of :: "Task \<Rightarrow> Task list" where
  "context_of t = (case task_context t of None \<Rightarrow> [] | Some ts \<Rightarrow> ts)"

primrec wired_forwards :: "Task list \<Rightarrow> Task list \<Rightarrow> bool" where
  "wired_forwards earlier [] = True"
| "wired_forwards earlier (t # ts) =
     (list_all (\<lambda>c. c \<in> set earlier) (context_of t) \<and>
      wired_forwards (earlier @ [t]) ts)"

section \<open>The availability probe\<close>

text \<open>
  The module keeps two globals, \<open>CREWAI_AVAILABLE\<close> and \<open>IMPORT_ERROR\<close>. They are
  assigned while the module is loaded and by nothing else.
\<close>

record module_state =
  CREWAI_AVAILABLE :: bool
  IMPORT_ERROR :: "string option"

















definition is_crewai_available :: "module_state \<Rightarrow> bool" where
  "is_crewai_available m = CREWAI_AVAILABLE m"

definition get_import_error :: "module_state \<Rightarrow> string option" where
  "get_import_error m = IMPORT_ERROR m"

section \<open>The facade \<open>LeadGenerator\<close>\<close>

text \<open>
  \<open>self.crew().kickoff(inputs=inputs)\<close> is the engine's work: it either raises an
  \<open>Exception\<close> or returns an object. The dashboard tells a structured result (one
  with the fields of \<open>LeadOutput\<close>) from any other, which it shows as text. The
  engine is a parameter of the model; building the crew is part of the same
  expression, so a failure to build it is one of the engine's failures. The console
  message of the handler of \<open>run\<close> is not modelled.
\<close>

datatype pyobj = Structured LeadOutput | Unstructured string

type_synonym engine = "Crew \<Rightarrow> inputs \<Rightarrow> exn + pyobj"

text \<open>The method \<open>_fallback_response\<close> of the class defined when the engine is available.\<close>

definition fallback_response :: "pydantic \<Rightarrow> inputs \<Rightarrow> exn + LeadOutput" where
  "fallback_response lib inputs =
     LeadOutput_init lib
       (no_kwargs
          \<lparr>kw_company_name := Passed (Some (''Erro na gera'' @ [CHR 0xE7, CHR 0xE3] @ ''o'')),
           kw_review :=
             Passed (Some (''Houve um erro ao processar a solicita'' @ [CHR 0xE7, CHR 0xE3] @
               ''o: '' @ py_format (dict_get inputs ''topic'' (PyStr ''N/A'')))),
           kw_score := Passed (Some 0)\<rparr>)"

text \<open>
  The method \<open>run\<close> of the same class: the engine's result is returned as it is; an
  \<open>Exception\<close> is caught and the handler returns \<open>_fallback_response(inputs)\<close>. An
  exception raised by the handler itself is not caught by anything in \<open>run\<close>.
\<close>

definition run :: "pydantic \<Rightarrow> engine \<Rightarrow> inputs \<Rightarrow> exn + pyobj" where
  "run lib kickoff inputs =
     (case kickoff crew inputs of
        Inr out \<Rightarrow> Inr out
      | Inl e \<Rightarrow>
          (case fallback_response lib inputs of
             Inl e' \<Rightarrow> Inl e'
           | Inr r \<Rightarrow> Inr (Structured r)))"

text \<open>The method \<open>run\<close> of the class defined when the engine is unavailable.\<close>

definition fallback_run :: "pydantic \<Rightarrow> inputs \<Rightarrow> exn + LeadOutput" where
  "fallback_run lib inputs =
     LeadOutput_init lib
       (no_kwargs
          \<lparr>kw_company_name := Passed (Some ''Modo Limitado''),
           kw_review :=
             Passed (Some (''CrewAI indispon'' @ [CHR 0xED] @ ''vel. T'' @ [CHR 0xF3] @
               ''pico solicitado: '' @ py_format (dict_get inputs ''topic'' (PyStr ''N/A'')))),
           kw_score := Passed (Some 0),
           kw_location := Passed (Some [''city'' \<mapsto> ''N/A'', ''country'' \<mapsto> ''N/A''])\<rparr>)"

text \<open>
  The module defines one of the two classes under the name \<open>LeadGenerator\<close>, by the
  value of \<open>CREWAI_AVAILABLE\<close>; \<open>LeadGenerator().run(inputs)\<close> is the \<open>run\<close> of that class.
\<close>

definition LeadGenerator_run :: "module_state \<Rightarrow> pydantic \<Rightarrow> engine \<Rightarrow> inputs \<Rightarrow> exn + pyobj" where
  "LeadGenerator_run m lib kickoff inputs =
     (if CREWAI_AVAILABLE m then run lib kickoff inputs
      else (case fallback_run lib inputs of
              Inl e \<Rightarrow> Inl e
            | Inr r \<Rightarrow> Inr (Structured r)))"

text \<open>
  A process, once the module is loaded, is a sequence of calls of the module's public
  functions. Each call returns a reply and the module state it leaves behind. The
  installed library is the same for the whole process; the engine may behave
  differently from one call of \<open>run\<close> to the next.
\<close>

datatype call =
  Call_is_crewai_available
| Call_get_import_error
| Call_run engine inputs

datatype reply =
  Reply_available bool
| Reply_import_error "string option"
| Reply_run "exn + pyobj"

definition serve :: "pydantic \<Rightarrow> module_state \<Rightarrow> call \<Rightarrow> reply \<times> module_state" where
  "serve lib m c =
     (case c of
        Call_is_crewai_available \<Rightarrow> (Reply_available (is_crewai_available m), m)
      | Call_get_import_error \<Rightarrow> (Reply_import_error (get_import_error m), m)
      | Call_run kickoff inputs \<Rightarrow> (Reply_run (LeadGenerator_run m lib kickoff inputs), m))"

primrec serve_all :: "pydantic \<Rightarrow> module_state \<Rightarrow> call list \<Rightarrow> module_state" where
  "serve_all lib m [] = m"
| "serve_all lib m (c # cs) = serve_all lib (snd (serve lib m c)) cs"

section \<open>What the two constructor calls yield\<close>

text \<open>
  Both degraded paths end in one constructor call, so what they return is decided by
  the library's rule for omitted fields. Where the rule fills in \<open>None\<close>, both calls
  build the result; where it requires every declared field, both raise, whatever the
  inputs are: \<open>_fallback_response\<close> omits five of the eight fields and the \<open>run\<close> of
  the fallback class omits four.
\<close>

lemma fallback_response_pydantic1:
  "fallback_response Pydantic1 inputs =
     Inr \<lparr>company_name = Some (''Erro na gera'' @ [CHR 0xE7, CHR 0xE3] @ ''o''),
          annual_revenue = None, location = None, website_url = None,
          review = Some (''Houve um erro ao processar a solicita'' @ [CHR 0xE7, CHR 0xE3] @
               ''o: '' @ py_format (dict_get inputs ''topic'' (PyStr ''N/A''))),
          num_employees = None, key_decision_makers = None, score = Some 0\<rparr>"
  by (simp add: fallback_response_def LeadOutput_init_def filled_def no_kwargs_def)

lemma fallback_run_pydantic1:
  "fallback_run Pydantic1 inputs =
     Inr \<lparr>company_name = Some ''Modo Limitado'',
          annual_revenue = None,
          location = Some [''city'' \<mapsto> ''N/A'', ''country'' \<mapsto> ''N/A''],
          website_url = None,
          review = Some (''CrewAI indispon'' @ [CHR 0xED] @ ''vel. T'' @ [CHR 0xF3] @
               ''pico solicitado: '' @ py_format (dict_get inputs ''topic'' (PyStr ''N/A''))),
          num_employees = None, key_decision_makers = None, score = Some 0\<rparr>"
  by (simp add: fallback_run_def LeadOutput_init_def filled_def no_kwargs_def)

lemma fallback_response_pydantic2:
  "fallback_response Pydantic2 inputs =
     Inl (ValidationError
       [''annual_revenue'', ''location'', ''website_url'', ''num_employees'',
        ''key_decision_makers''])"
  by (simp add: fallback_response_def LeadOutput_init_def missing_fields_def no_kwargs_def)

lemma fallback_run_pydantic2:
  "fallback_run Pydantic2 inputs =
     Inl (ValidationError
       [''annual_revenue'', ''website_url'', ''num_employees'', ''key_decision_makers''])"
  by (simp add: fallback_run_def LeadOutput_init_def missing_fields_def no_kwargs_def)

text \<open>
  With \<open>None\<close> filled in for omitted fields, \<open>LeadGenerator().run(inputs)\<close> returns an
  object for every module state, engine and inputs.
\<close>

lemma LeadGenerator_run_returns_pydantic1:
  "\<exists>obj. LeadGenerator_run m Pydantic1 kickoff inputs = Inr obj"
  by (cases "kickoff crew inputs")
    (simp_all add: LeadGenerator_run_def run_def fallback_response_pydantic1
      fallback_run_pydantic1)

text \<open>
  With every declared field required, an engine failure is replaced by the
  constructor's own error, and the fallback class raises on every call.
\<close>

lemma run_engine_failure_pydantic2:
  "kickoff crew inputs = Inl e \<Longrightarrow>
     run Pydantic2 kickoff inputs =
       Inl (ValidationError
         [''annual_revenue'', ''location'', ''website_url'', ''num_employees'',
          ''key_decision_makers''])"
  by (simp add: run_def fallback_response_pydantic2)

section \<open>The probe and the availability queries\<close>

lemma serve_keeps_state: "snd (serve lib m c) = m"
  by (cases c) (simp_all add: serve_def)

lemma serve_all_keeps_state: "serve_all lib m cs = m"
  by (induction cs arbitrary: m) (simp_all add: serve_keeps_state)




text \<open>
  Claim C8. No call of the module's public functions changes the module state, so
  after any sequence of calls the state is the one the probe left. The availability
  query and the error query therefore answer after the sequence what they answered
  before it; in particular two consecutive queries answer the same.
\<close>

theorem availability_stable:
  "snd (serve lib m c) = m
   \<and> serve_all lib m calls = m
   \<and> fst (serve lib (serve_all lib m calls) Call_is_crewai_available) =
       fst (serve lib m Call_is_crewai_available)
   \<and> fst (serve lib (serve_all lib m calls) Call_get_import_error) =
       fst (serve lib m Call_get_import_error)
   \<and> is_crewai_available (serve_all lib m calls) = is_crewai_available m
   \<and> get_import_error (serve_all lib m calls) = get_import_error m"
  by (simp add: serve_keeps_state serve_all_keeps_state)

section \<open>Delegation\<close>

text \<open>
  Claim C5. When the engine is available and the pipeline completes,
  \<open>LeadGenerator().run(inputs)\<close> returns the very object the engine returned: a
  structured result keeps each of its eight fields, nothing is renamed or dropped.
\<close>

theorem run_passes_engine_output_through:
  "CREWAI_AVAILABLE m \<Longrightarrow> kickoff crew inputs = Inr out \<Longrightarrow>
     LeadGenerator_run m lib kickoff inputs = Inr out"
  by (simp add: LeadGenerator_run_def run_def)

text \<open>A pipeline that returns a populated structured result with score 9.\<close>

theorem run_passes_engine_output_through_witness:
  "CREWAI_AVAILABLE \<lparr>CREWAI_AVAILABLE = True, IMPORT_ERROR = None\<rparr>
   \<and> (\<lambda>c i. Inr (Structured
          \<lparr>company_name = Some ''Acme GmbH'', annual_revenue = Some ''12M EUR'',
           location = Some [''city'' \<mapsto> ''Berlin'', ''country'' \<mapsto> ''Germany''],
           website_url = Some ''https://acme.example'', review = Some ''Payments API'',
           num_employees = Some 85,
           key_decision_makers = Some [[''name'' \<mapsto> ''A. Jones'', ''position'' \<mapsto> ''CTO'']],
           score = Some 9\<rparr>)) crew [''topic'' \<mapsto> PyStr ''fintech startups in Berlin'']
      = (Inr (Structured
          \<lparr>company_name = Some ''Acme GmbH'', annual_revenue = Some ''12M EUR'',
           location = Some [''city'' \<mapsto> ''Berlin'', ''country'' \<mapsto> ''Germany''],
           website_url = Some ''https://acme.example'', review = Some ''Payments API'',
           num_employees = Some 85,
           key_decision_makers = Some [[''name'' \<mapsto> ''A. Jones'', ''position'' \<mapsto> ''CTO'']],
           score = Some 9\<rparr>) :: exn + pyobj)
   \<and> LeadGenerator_run \<lparr>CREWAI_AVAILABLE = True, IMPORT_ERROR = None\<rparr> Pydantic2
        (\<lambda>c i. Inr (Structured
          \<lparr>company_name = Some ''Acme GmbH'', annual_revenue = Some ''12M EUR'',
           location = Some [''city'' \<mapsto> ''Berlin'', ''country'' \<mapsto> ''Germany''],
           website_url = Some ''https://acme.example'', review = Some ''Payments API'',
           num_employees = Some 85,
           key_decision_makers = Some [[''name'' \<mapsto> ''A. Jones'', ''position'' \<mapsto> ''CTO'']],
           score = Some 9\<rparr>))
        [''topic'' \<mapsto> PyStr ''fintech startups in Berlin'']
      = Inr (Structured
          \<lparr>company_name = Some ''Acme GmbH'', annual_revenue = Some ''12M EUR'',
           location = Some [''city'' \<mapsto> ''Berlin'', ''country'' \<mapsto> ''Germany''],
           website_url = Some ''https://acme.example'', review = Some ''Payments API'',
           num_employees = Some 85,
           key_decision_makers = Some [[''name'' \<mapsto> ''A. Jones'', ''position'' \<mapsto> ''CTO'']],
           score = Some 9\<rparr>)"
proof -
  have available: "CREWAI_AVAILABLE \<lparr>CREWAI_AVAILABLE = True, IMPORT_ERROR = None\<rparr>"
    by simp
  show ?thesis
    using available run_passes_engine_output_through [OF available, of
      "\<lambda>c i. Inr (Structured
          \<lparr>company_name = Some ''Acme GmbH'', annual_revenue = Some ''12M EUR'',
           location = Some [''city'' \<mapsto> ''Berlin'', ''country'' \<mapsto> ''Germany''],
           website_url = Some ''https://acme.example'', review = Some ''Payments API'',
           num_employees = Some 85,
           key_decision_makers = Some [[''name'' \<mapsto> ''A. Jones'', ''position'' \<mapsto> ''CTO'']],
           score = Some 9\<rparr>)"
      "[''topic'' \<mapsto> PyStr ''fintech startups in Berlin'']" _ Pydantic2]
    by simp
qed

text \<open>
  Claim C6. The crew holds exactly four tasks, in the order generation, contact
  research, qualification, management. The generation task has no context; the
  context of the contact research task is the generation task; the context of the
  qualification task is the generation and the contact research tasks; the context of
  the management task is the generation, the qualification and the contact research
  tasks. Every context names only tasks earlier in the list, the four tasks are
  pairwise different, and the crew's process is sequential.
\<close>

theorem crew_task_wiring:
  "crew_tasks crew =
     [lead_generation_task, contact_research_task, lead_qualification_task,
      sales_management_task]
   \<and> length (crew_tasks crew) = 4
   \<and> distinct (crew_tasks crew)
   \<and> task_context lead_generation_task = None
   \<and> task_context contact_research_task = Some [lead_generation_task]
   \<and> task_context lead_qualification_task =
       Some [lead_generation_task, contact_research_task]
   \<and> task_context sales_management_task =
       Some [lead_generation_task, lead_qualification_task, contact_research_task]
   \<and> wired_forwards [] (crew_tasks crew)
   \<and> crew_process crew = sequential"
  by (simp add: crew_def tasks_def lead_generation_task_def contact_research_task_def
      lead_qualification_task_def sales_management_task_def context_of_def)

section \<open>Results of the degraded paths\<close>

text \<open>
  Claim C4. Whenever a degraded path produces a result, its \<open>company_name\<close>,
  \<open>review\<close> and \<open>score\<close> are populated: the fallback class gives the sentinel
  \<open>Modo Limitado\<close>, its message ending in the topic, and score 0; the handler of an
  engine failure gives the error sentinel, its message ending in the
  topic, and score 0. A \<open>LeadOutput\<close> in general may have every field \<open>None\<close>: the
  constructor accepts eight \<open>None\<close> arguments under either rule of the library.
\<close>

theorem degraded_results_populated:
  "(fallback_run lib inputs = Inr r \<longrightarrow>
      company_name r = Some ''Modo Limitado''
      \<and> review r = Some (''CrewAI indispon'' @ [CHR 0xED] @ ''vel. T'' @ [CHR 0xF3] @
            ''pico solicitado: '' @ py_format (dict_get inputs ''topic'' (PyStr ''N/A'')))
      \<and> score r = Some 0)
   \<and> (kickoff crew inputs = Inl e \<longrightarrow> run lib kickoff inputs = Inr obj \<longrightarrow>
      (\<exists>r'. obj = Structured r'
        \<and> company_name r' = Some (''Erro na gera'' @ [CHR 0xE7, CHR 0xE3] @ ''o'')
        \<and> review r' = Some (''Houve um erro ao processar a solicita'' @ [CHR 0xE7, CHR 0xE3] @
              ''o: '' @ py_format (dict_get inputs ''topic'' (PyStr ''N/A'')))
        \<and> score r' = Some 0))
   \<and> LeadOutput_init lib
        \<lparr>kw_company_name = Passed None, kw_annual_revenue = Passed None,
         kw_location = Passed None, kw_website_url = Passed None, kw_review = Passed None,
         kw_num_employees = Passed None, kw_key_decision_makers = Passed None,
         kw_score = Passed None\<rparr>
      = Inr \<lparr>company_name = None, annual_revenue = None, location = None,
             website_url = None, review = None, num_employees = None,
             key_decision_makers = None, score = None\<rparr>"
proof -
  have unavailable: "fallback_run lib inputs = Inr r \<longrightarrow>
      company_name r = Some ''Modo Limitado''
      \<and> review r = Some (''CrewAI indispon'' @ [CHR 0xED] @ ''vel. T'' @ [CHR 0xF3] @
            ''pico solicitado: '' @ py_format (dict_get inputs ''topic'' (PyStr ''N/A'')))
      \<and> score r = Some 0"
    by (cases lib) (auto simp add: fallback_run_pydantic1 fallback_run_pydantic2)
  have failed: "kickoff crew inputs = Inl e \<longrightarrow> run lib kickoff inputs = Inr obj \<longrightarrow>
      (\<exists>r'. obj = Structured r'
        \<and> company_name r' = Some (''Erro na gera'' @ [CHR 0xE7, CHR 0xE3] @ ''o'')
        \<and> review r' = Some (''Houve um erro ao processar a solicita'' @ [CHR 0xE7, CHR 0xE3] @
              ''o: '' @ py_format (dict_get inputs ''topic'' (PyStr ''N/A'')))
        \<and> score r' = Some 0)"
    by (cases lib)
      (auto simp add: run_def fallback_response_pydantic1 fallback_response_pydantic2)
  have all_absent: "LeadOutput_init lib
        \<lparr>kw_company_name = Passed None, kw_annual_revenue = Passed None,
         kw_location = Passed None, kw_website_url = Passed None, kw_review = Passed None,
         kw_num_employees = Passed None, kw_key_decision_makers = Passed None,
         kw_score = Passed None\<rparr>
      = Inr \<lparr>company_name = None, annual_revenue = None, location = None,
             website_url = None, review = None, num_employees = None,
             key_decision_makers = None, score = None\<rparr>"
    by (cases lib) (simp_all add: LeadOutput_init_def missing_fields_def filled_def)
  from unavailable failed all_absent show ?thesis by blast
qed

text \<open>
  Both degraded paths producing a result, for the topic \<open>fintech startups in Berlin\<close>
  and an engine that raises a connection error.
\<close>

theorem degraded_results_populated_witness:
  "fallback_run Pydantic1 [''topic'' \<mapsto> PyStr ''fintech startups in Berlin''] =
     Inr \<lparr>company_name = Some ''Modo Limitado'', annual_revenue = None,
          location = Some [''city'' \<mapsto> ''N/A'', ''country'' \<mapsto> ''N/A''],
          website_url = None,
          review = Some (''CrewAI indispon'' @ [CHR 0xED] @ ''vel. T'' @ [CHR 0xF3] @
            ''pico solicitado: fintech startups in Berlin''),
          num_employees = None, key_decision_makers = None, score = Some 0\<rparr>
   \<and> company_name
        \<lparr>company_name = Some ''Modo Limitado'', annual_revenue = None,
          location = Some [''city'' \<mapsto> ''N/A'', ''country'' \<mapsto> ''N/A''],
          website_url = None,
          review = Some (''CrewAI indispon'' @ [CHR 0xED] @ ''vel. T'' @ [CHR 0xF3] @
            ''pico solicitado: fintech startups in Berlin''),
          num_employees = None, key_decision_makers = None, score = Some 0\<rparr>
       = Some ''Modo Limitado''
   \<and> (\<lambda>c i. Inl (Exception ''Connection error.'')) crew
        [''topic'' \<mapsto> PyStr ''fintech startups in Berlin'']
       = (Inl (Exception ''Connection error.'') :: exn + pyobj)
   \<and> run Pydantic1 (\<lambda>c i. Inl (Exception ''Connection error.''))
        [''topic'' \<mapsto> PyStr ''fintech startups in Berlin'']
       = Inr (Structured
          \<lparr>company_name = Some (''Erro na gera'' @ [CHR 0xE7, CHR 0xE3] @ ''o''),
           annual_revenue = None, location = None, website_url = None,
           review = Some (''Houve um erro ao processar a solicita'' @ [CHR 0xE7, CHR 0xE3] @
             ''o: fintech startups in Berlin''),
           num_employees = None, key_decision_makers = None, score = Some 0\<rparr>)"
  using degraded_results_populated
    [of Pydantic1 "[''topic'' \<mapsto> PyStr ''fintech startups in Berlin'']"
      "\<lparr>company_name = Some ''Modo Limitado'', annual_revenue = None,
          location = Some [''city'' \<mapsto> ''N/A'', ''country'' \<mapsto> ''N/A''],
          website_url = None,
          review = Some (''CrewAI indispon'' @ [CHR 0xED] @ ''vel. T'' @ [CHR 0xF3] @
            ''pico solicitado: fintech startups in Berlin''),
          num_employees = None, key_decision_makers = None, score = Some 0\<rparr>"
      "\<lambda>c i. Inl (Exception ''Connection error.'')"
      "Exception ''Connection error.''"]
  by (simp add: fallback_run_pydantic1 fallback_response_pydantic1 run_def dict_get_def
      py_format_def)

text \<open>
  Claim C10. The \<open>run\<close> of the fallback class is a function of the value stored
  under \<open>topic\<close> alone: two input mappings that agree on \<open>topic\<close> (both lacking it
  included) get the same outcome, field for field. Through \<open>LeadGenerator().run\<close> in
  unavailable mode the outcome depends neither on the engine nor on the recorded
  import error.
\<close>

theorem fallback_run_depends_on_topic_only:
  "inputs ''topic'' = inputs' ''topic'' \<Longrightarrow>
     \<not> CREWAI_AVAILABLE m \<Longrightarrow> \<not> CREWAI_AVAILABLE m' \<Longrightarrow>
     fallback_run lib inputs = fallback_run lib inputs'
     \<and> LeadGenerator_run m lib kickoff inputs = LeadGenerator_run m' lib kickoff' inputs'"
  by (simp add: LeadGenerator_run_def fallback_run_def dict_get_def)

text \<open>
  Two mappings with the same topic and different other keys, two module states with
  different import errors, and two different engines.
\<close>

theorem fallback_run_depends_on_topic_only_witness:
  "[''topic'' \<mapsto> PyStr ''fintech startups in Berlin'', ''max_leads'' \<mapsto> PyInt 3] ''topic'' =
     [''topic'' \<mapsto> PyStr ''fintech startups in Berlin''] ''topic''
   \<and> \<not> CREWAI_AVAILABLE \<lparr>CREWAI_AVAILABLE = False, IMPORT_ERROR = Some ''No module named crewai''\<rparr>
   \<and> \<not> CREWAI_AVAILABLE \<lparr>CREWAI_AVAILABLE = False, IMPORT_ERROR = Some ''unsupported version of sqlite3''\<rparr>
   \<and> fallback_run Pydantic1
        [''topic'' \<mapsto> PyStr ''fintech startups in Berlin'', ''max_leads'' \<mapsto> PyInt 3] =
      fallback_run Pydantic1 [''topic'' \<mapsto> PyStr ''fintech startups in Berlin'']
   \<and> LeadGenerator_run \<lparr>CREWAI_AVAILABLE = False, IMPORT_ERROR = Some ''No module named crewai''\<rparr>
        Pydantic1 (\<lambda>c i. Inl (Exception ''Connection error.''))
        [''topic'' \<mapsto> PyStr ''fintech startups in Berlin'', ''max_leads'' \<mapsto> PyInt 3] =
      LeadGenerator_run
        \<lparr>CREWAI_AVAILABLE = False, IMPORT_ERROR = Some ''unsupported version of sqlite3''\<rparr>
        Pydantic1 (\<lambda>c i. Inr (Unstructured ''done''))
        [''topic'' \<mapsto> PyStr ''fintech startups in Berlin'']"
  using fallback_run_depends_on_topic_only
    [of "[''topic'' \<mapsto> PyStr ''fintech startups in Berlin'', ''max_leads'' \<mapsto> PyInt 3]"
      "[''topic'' \<mapsto> PyStr ''fintech startups in Berlin'']"
      "\<lparr>CREWAI_AVAILABLE = False, IMPORT_ERROR = Some ''No module named crewai''\<rparr>"
      "\<lparr>CREWAI_AVAILABLE = False, IMPORT_ERROR = Some ''unsupported version of sqlite3''\<rparr>"
      Pydantic1
      "\<lambda>c i. Inl (Exception ''Connection error.'')"
      "\<lambda>c i. Inr (Unstructured ''done'')"]
  by simp

section \<open>The degraded paths where every declared field is required\<close>

text \<open>
  Claim C1 says that \<open>LeadGenerator().run(inputs)\<close> returns a result and never raises,
  for every inputs with a non-empty topic, in both modes. With pydantic 2 it raises
  in both: with the engine available and failing, the handler's
  \<open>_fallback_response\<close> raises \<open>ValidationError\<close> for the five fields it omits, and
  nothing catches it; with the engine unavailable, the fallback class raises for the
  four fields it omits.
\<close>

theorem run_propagates_validation_error:
  "LeadGenerator_run \<lparr>CREWAI_AVAILABLE = True, IMPORT_ERROR = None\<rparr> Pydantic2
     (\<lambda>c i. Inl (Exception ''Connection error.''))
     [''topic'' \<mapsto> PyStr ''fintech startups in Berlin'']
   = Inl (ValidationError
       [''annual_revenue'', ''location'', ''website_url'', ''num_employees'',
        ''key_decision_makers''])
   \<and> LeadGenerator_run \<lparr>CREWAI_AVAILABLE = False, IMPORT_ERROR = Some ''unsupported version of sqlite3''\<rparr>
       Pydantic2 (\<lambda>c i. Inl (Exception ''Connection error.''))
       [''topic'' \<mapsto> PyStr ''fintech startups in Berlin'']
   = Inl (ValidationError
       [''annual_revenue'', ''website_url'', ''num_employees'', ''key_decision_makers''])"
  by (simp add: LeadGenerator_run_def run_def
      fallback_response_pydantic2 fallback_run_pydantic2)

text \<open>
  Claim C2 says that in unavailable mode \<open>run\<close> returns the sentinel
  \<open>Modo Limitado\<close>, score 0, the location with both entries \<open>N/A\<close> and a review that
  contains the topic. With pydantic 2 the call for the topic
  \<open>fintech startups in Berlin\<close> returns nothing: it raises \<open>ValidationError\<close>.
\<close>

theorem fallback_run_scenario_A:
  "fallback_run Pydantic2 [''topic'' \<mapsto> PyStr ''fintech startups in Berlin''] =
     Inl (ValidationError
       [''annual_revenue'', ''website_url'', ''num_employees'', ''key_decision_makers''])"
  by (simp add: fallback_run_pydantic2)

text \<open>
  Claim C3 says that when the engine is available and the pipeline raises, \<open>run\<close>
  returns the error sentinel, score 0 and a review that contains the
  topic, with no location. With pydantic 2 the call returns nothing: the pipeline's
  connection error is replaced by the \<open>ValidationError\<close> of \<open>_fallback_response\<close>.
\<close>

theorem run_scenario_B:
  "run Pydantic2 (\<lambda>c i. Inl (Exception ''Connection error.''))
     [''topic'' \<mapsto> PyStr ''fintech startups in Berlin'', ''max_leads'' \<mapsto> PyInt 3,
      ''additional_info'' \<mapsto> PyStr '''']
   = Inl (ValidationError
       [''annual_revenue'', ''location'', ''website_url'', ''num_employees'',
        ''key_decision_makers''])"
  by (simp add: run_def fallback_response_pydantic2)

text \<open>
  Claim C9 says that for inputs without the key \<open>topic\<close> both degraded paths return a
  result whose review names \<open>N/A\<close>. The missing key is indeed harmless (the lookup
  yields \<open>N/A\<close>), but with pydantic 2 neither path returns a result: both raise
  \<open>ValidationError\<close> for the omitted fields.
\<close>

theorem degraded_paths_without_topic:
  "dict_get [''max_leads'' \<mapsto> PyInt 3] ''topic'' (PyStr ''N/A'') = PyStr ''N/A''
   \<and> fallback_run Pydantic2 [''max_leads'' \<mapsto> PyInt 3] =
       Inl (ValidationError
         [''annual_revenue'', ''website_url'', ''num_employees'', ''key_decision_makers''])
   \<and> run Pydantic2 (\<lambda>c i. Inl (Exception ''Connection error.'')) [''max_leads'' \<mapsto> PyInt 3] =
       Inl (ValidationError
         [''annual_revenue'', ''location'', ''website_url'', ''num_employees'',
          ''key_decision_makers''])"
  by (simp add: dict_get_def run_def fallback_response_pydantic2 fallback_run_pydantic2)

end
